theory Spec2Isabelle
  imports Complex_Main
begin

section \<open>The COCO captioning input pipeline of \<open>SGT/data.py\<close>\<close>

text \<open>
  The module has three classes that matter: \<open>Data\<close> (the captioned sample provider),
  \<open>Data_test\<close> (the image-only provider) and \<open>Dataloader\<close> (transform construction,
  collation, and the builder \<open>get_dataloader\<close>). The libraries it calls (the file system,
  OpenCV, the tokenizer, the augmentation engine) are collaborators: they enter the model
  as the fields of an environment record, and every raise of the module itself is a
  branch that returns \<open>Inl\<close>.
\<close>

subsection \<open>Python values the module relies on\<close>

datatype py_error =
    IndexError
  | ValueError
  | KeyError
  | FileNotFoundError
  | RuntimeError
  | JSONDecodeError

text \<open>\<open>xs[i]\<close> on a list: a negative index counts from the end, out of range raises.\<close>

definition py_index :: "'a list \<Rightarrow> int \<Rightarrow> py_error + 'a" where
  "py_index xs i =
     (let j = (if i < 0 then i + int (length xs) else i)
      in if j < 0 \<or> int (length xs) \<le> j then Inl IndexError else Inr (xs ! nat j))"

text \<open>
  \<open>str.isspace\<close> on the one-byte characters: tab to carriage return, the four separators
  \<open>0x1c\<close> to \<open>0x1f\<close>, and the space.
\<close>

definition is_space :: "char \<Rightarrow> bool" where
  "is_space c = (let n = (of_char c :: nat) in (9 \<le> n \<and> n \<le> 13) \<or> (28 \<le> n \<and> n \<le> 32))"

definition py_strip :: "string \<Rightarrow> string" where
  "py_strip s = rev (dropWhile is_space (rev (dropWhile is_space s)))"

definition is_digit :: "char \<Rightarrow> bool" where
  "is_digit c = (let n = (of_char c :: nat) in 48 \<le> n \<and> n \<le> 57)"

definition digit_val :: "char \<Rightarrow> nat" where
  "digit_val c = of_char c - 48"

definition digit_char :: "nat \<Rightarrow> char" where
  "digit_char d = ''0123456789'' ! d"

text \<open>
  The body of an integer literal accepted by \<open>int(s)\<close>: digits, with single underscores
  allowed between two digits only. The flag says whether the previous character was a
  digit.
\<close>

fun int_body :: "bool \<Rightarrow> string \<Rightarrow> bool" where
  "int_body prev [] = prev"
| "int_body prev (c # cs) =
     (if is_digit c then int_body True cs
      else c = CHR ''_'' \<and> prev \<and> int_body False cs)"

definition digits_value :: "string \<Rightarrow> nat" where
  "digits_value ds = foldl (\<lambda>acc c. 10 * acc + digit_val c) 0 ds"

text \<open>
  \<open>int(s)\<close> for a string: surrounding white space, one optional sign, base ten.
  Strings are byte strings here, so the digits and the white space are the ASCII ones.
\<close>

definition py_int :: "string \<Rightarrow> py_error + int" where
  "py_int s =
     (let t = py_strip s;
          neg = (case t of [] \<Rightarrow> False | c # _ \<Rightarrow> c = CHR ''-'');
          body = (case t of [] \<Rightarrow> []
                  | c # cs \<Rightarrow> if c = CHR ''-'' \<or> c = CHR ''+'' then cs else t)
      in if int_body False body
         then Inr ((if neg then - 1 else 1) * int (digits_value (filter is_digit body)))
         else Inl ValueError)"

text \<open>\<open>str(n)\<close> for an integer: decimal, no leading zeros, a minus sign when negative.\<close>

fun str_nat :: "nat \<Rightarrow> string" where
  "str_nat n = (if n < 10 then [digit_char n] else str_nat (n div 10) @ [digit_char (n mod 10)])"

declare str_nat.simps [simp del]

definition py_str :: "int \<Rightarrow> string" where
  "py_str i = (if i < 0 then CHR ''-'' # str_nat (nat (- i)) else str_nat (nat i))"

text \<open>\<open>os.path.basename(p)\<close>: what follows the last slash.\<close>

definition basename :: "string \<Rightarrow> string" where
  "basename p = rev (takeWhile (\<lambda>c. c \<noteq> CHR ''/'') (rev p))"

text \<open>\<open>s.split('.')[0]\<close>: what precedes the first dot (the whole string when there is none).\<close>

definition split_dot_0 :: "string \<Rightarrow> string" where
  "split_dot_0 s = takeWhile (\<lambda>c. c \<noteq> CHR ''.'') s"

text \<open>
  \<open>random.randint(a, b)\<close> is \<open>randrange(a, b + 1)\<close>: it raises \<open>ValueError\<close> on an empty
  range and otherwise returns \<open>a\<close> plus a draw below the width. The draw \<open>r\<close> is the
  random source's contribution; quantifying over it covers every outcome.
\<close>

definition randint :: "nat \<Rightarrow> int \<Rightarrow> int \<Rightarrow> py_error + int" where
  "randint r a b =
     (let width = b + 1 - a
      in if width > 0 then Inr (a + int (r mod nat width)) else Inl ValueError)"

text \<open>\<open>range(n)\<close>, as the sequence of its elements.\<close>

definition py_range :: "int \<Rightarrow> int list" where
  "py_range n = map int [0 ..< nat n]"

subsection \<open>Caption records and the caption store\<close>

text \<open>
  One object of the caption file: \<open>{"image_id": number, "captions": [string, ...]}\<close>.
  \<open>int(anno['image_id'])\<close> on an integer is that integer.
\<close>

record anno =
  anno_image_id :: int
  anno_captions :: "string list"

text \<open>
  \<open>self._captions\<close> is what \<open>json.load\<close> returned (an array of records), or the empty
  dictionary \<open>{}\<close> that the constructor falls back to. Iterating either yields its
  elements; the empty dictionary has none.
\<close>

datatype captions_store = JsonArray "anno list" | EmptyDict

fun iter_store :: "captions_store \<Rightarrow> anno list" where
  "iter_store (JsonArray annos) = annos"
| "iter_store EmptyDict = []"

subsection \<open>The augmentation pipeline as data\<close>

text \<open>
  \<open>A.Compose([...])\<close> is kept as the list of its stages with their constructor arguments.
  The probabilities \<open>0.5\<close> and \<open>0.\<close> are exact binary fractions.
\<close>

datatype aug_op =
    Resize int int
  | RandomBrightnessContrast real
  | HueSaturationValue real
  | HorizontalFlip real
  | VerticalFlip real
  | MyPreProcessing
  | ToTensorV2

text \<open>
  \<open>if self._transform:\<close> tests truthiness: \<open>None\<close> is false, and a \<open>Compose\<close> is false
  exactly when it holds no stage (it defines \<open>__len__\<close>).
\<close>

fun truthy :: "aug_op list option \<Rightarrow> bool" where
  "truthy None = False"
| "truthy (Some ops) = (ops \<noteq> [])"

subsection \<open>Collaborators and observable events\<close>

record 'img env =
  glob :: "string \<Rightarrow> string list"
  read_json :: "string \<Rightarrow> py_error + captions_store"
  imread :: "string \<Rightarrow> 'img option"
  tokenize :: "string \<Rightarrow> string \<Rightarrow> int list"
  run_compose :: "aug_op list \<Rightarrow> 'img \<Rightarrow> 'img"

text \<open>
  \<open>glob\<close> maps a pattern to the paths it matches, in discovery order. \<open>read_json\<close> is
  \<open>open\<close> followed by \<open>json.load\<close>. \<open>imread\<close> is \<open>cv2.imread\<close>, \<open>None\<close> when nothing was
  decoded. \<open>tokenize name text\<close> is the tokenizer loaded under \<open>name\<close>, called on one text
  with truncation at 512, followed by \<open>["input_ids"].squeeze()\<close> and the copy into a
  long tensor: the one-dimensional sequence of token ids. \<open>run_compose\<close> applies a
  composed pipeline to an image and projects the \<open>'image'\<close> entry.
\<close>

datatype event =
    Print string
  | Imread string
  | Tokenize string
  | Transform

subsection \<open>Class \<open>Data\<close>\<close>

record Data =
  image_dir :: string
  image_paths :: "string list"
  caption_file_train :: string
  caption_file_val :: string
  transform :: "aug_op list option"
  tokenizer :: string
  captions :: captions_store

text \<open>
  A call runs in a state holding the object and the trace of what the call did to the
  outside world, oldest event first.
\<close>

record 'obj pstate =
  self :: 'obj
  trace :: "event list"

definition emit :: "event \<Rightarrow> 'obj pstate \<Rightarrow> 'obj pstate" where
  "emit e st = st\<lparr>trace := trace st @ [e]\<rparr>"

text \<open>An f-string renders \<open>None\<close> as the text \<open>None\<close>.\<close>

fun fmt_opt :: "string option \<Rightarrow> string" where
  "fmt_opt None = ''None''"
| "fmt_opt (Some s) = s"

text \<open>
  \<open>Data.__init__\<close>. Only \<open>FileNotFoundError\<close> is caught; any other failure of reading
  the caption file leaves the constructor.
\<close>

definition Data_init ::
  "'img env \<Rightarrow> string \<Rightarrow> string \<Rightarrow> string option \<Rightarrow> aug_op list option \<Rightarrow> event list
     \<Rightarrow> (py_error + Data) \<times> event list" where
  "Data_init env dir0 image_split caption_split tr out =
     (let paths = glob env (dir0 @ ''/'' @ image_split @ ''/*.jpg'');
          ftrain = dir0 @ ''/'' @ fmt_opt caption_split @ ''/train_captions.json'';
          fval = dir0 @ ''/'' @ fmt_opt caption_split @ ''/val_captions.json'';
          obj = \<lparr>image_dir = dir0, image_paths = paths, caption_file_train = ftrain,
                 caption_file_val = fval, transform = tr,
                 tokenizer = ''bert-base-uncased'', captions = EmptyDict\<rparr>
      in case read_json env (if image_split = ''train2017'' then ftrain else fval) of
           Inr js \<Rightarrow> (Inr (obj\<lparr>captions := js\<rparr>), out)
         | Inl FileNotFoundError \<Rightarrow>
             (Inr (obj\<lparr>captions := EmptyDict\<rparr>),
              out @ [Print (''Caption file for '' @ image_split @ '' not found.'')])
         | Inl e \<Rightarrow> (Inl e, out))"

definition Data_len :: "Data \<Rightarrow> nat" where
  "Data_len d = length (image_paths d)"

text \<open>Line 52: the image ID is the decimal text of the integer read from the file stem.\<close>

definition image_id_of :: "string \<Rightarrow> py_error + string" where
  "image_id_of image_path =
     (case py_int (split_dot_0 (basename image_path)) of
        Inl e \<Rightarrow> Inl e
      | Inr n \<Rightarrow> Inr (py_str n))"

text \<open>Line 55: the caption lists of every record whose ID renders to the same text.\<close>

definition match_captions :: "captions_store \<Rightarrow> string \<Rightarrow> string list list" where
  "match_captions cs image_id =
     map anno_captions (filter (\<lambda>a. py_str (anno_image_id a) = image_id) (iter_store cs))"

text \<open>Lines 63 to 65: start from the empty list and overwrite with each match in turn.\<close>

definition resolve_captions :: "string list list \<Rightarrow> string list" where
  "resolve_captions image_captions = foldl (\<lambda>captions0 cap. cap) [] image_captions"

definition no_captions_msg :: "string \<Rightarrow> string" where
  "no_captions_msg image_id =
     ''No captions found for image ID '' @ image_id @ ''. Returning an empty caption.''"

text \<open>\<open>Data.__getitem__\<close>, statement by statement; \<open>r\<close> is the random draw of this call.\<close>

definition Data_getitem ::
  "'img env \<Rightarrow> nat \<Rightarrow> int \<Rightarrow> Data pstate \<Rightarrow> (py_error + 'img \<times> int list) \<times> Data pstate" where
  "Data_getitem env r idx st =
     (case py_index (image_paths (self st)) idx of
        Inl e \<Rightarrow> (Inl e, st)
      | Inr image_path \<Rightarrow>
          let st1 = emit (Imread image_path) st
          in (case imread env image_path of
                None \<Rightarrow> (Inl FileNotFoundError, st1)
              | Some img \<Rightarrow>
                  (case image_id_of image_path of
                     Inl e \<Rightarrow> (Inl e, st1)
                   | Inr image_id \<Rightarrow>
                       let image_captions = match_captions (captions (self st1)) image_id;
                           st2 = (if image_captions = []
                                  then emit (Print (no_captions_msg image_id)) st1 else st1);
                           caps = resolve_captions image_captions
                       in (case randint r 0 (int (length caps) - 1) of
                             Inl e \<Rightarrow> (Inl e, st2)
                           | Inr result \<Rightarrow>
                               (case py_index caps result of
                                  Inl e \<Rightarrow> (Inl e, st2)
                                | Inr cap \<Rightarrow>
                                    let caption_text = py_strip cap;
                                        st3 = emit (Tokenize caption_text) st2;
                                        caption_tensor = tokenize env (tokenizer (self st3)) caption_text
                                    in if truthy (transform (self st3))
                                       then (Inr (run_compose env (the (transform (self st3))) img,
                                                  caption_tensor),
                                             emit Transform st3)
                                       else (Inr (img, caption_tensor), st3))))))"

subsection \<open>Class \<open>Data_test\<close>\<close>

record Data_test =
  test_image_dir :: string
  test_image_paths :: "string list"
  test_transform :: "aug_op list option"

definition Data_test_init ::
  "'img env \<Rightarrow> string \<Rightarrow> string \<Rightarrow> aug_op list option \<Rightarrow> Data_test" where
  "Data_test_init env dir0 image_split tr =
     \<lparr>test_image_dir = dir0,
      test_image_paths = glob env (dir0 @ ''/'' @ image_split @ ''/*.jpg''),
      test_transform = tr\<rparr>"

definition Data_test_len :: "Data_test \<Rightarrow> nat" where
  "Data_test_len d = length (test_image_paths d)"

definition Data_test_getitem ::
  "'img env \<Rightarrow> int \<Rightarrow> Data_test pstate \<Rightarrow> (py_error + 'img) \<times> Data_test pstate" where
  "Data_test_getitem env idx st =
     (case py_index (test_image_paths (self st)) idx of
        Inl e \<Rightarrow> (Inl e, st)
      | Inr image_path \<Rightarrow>
          let st1 = emit (Imread image_path) st
          in (case imread env image_path of
                None \<Rightarrow> (Inl FileNotFoundError, st1)
              | Some img \<Rightarrow>
                  if truthy (test_transform (self st1))
                  then (Inr (run_compose env (the (test_transform (self st1))) img),
                        emit Transform st1)
                  else (Inr img, st1)))"

subsection \<open>Tensors, stacking and padding\<close>

text \<open>A tensor is its shape and its elements in row-major order.\<close>

datatype 'a tensor = Tensor (shape: "nat list") (elems: "'a list")

text \<open>
  \<open>torch.stack(ts, 0)\<close>: a new leading axis of the number of tensors; it refuses an empty
  sequence and tensors of different shapes.
\<close>

definition stack :: "'a tensor list \<Rightarrow> py_error + 'a tensor" where
  "stack ts =
     (case ts of
        [] \<Rightarrow> Inl RuntimeError
      | t # rest \<Rightarrow>
          if list_all (\<lambda>u. shape u = shape t) rest
          then Inr (Tensor (length ts # shape t) (concat (map elems ts)))
          else Inl RuntimeError)"

text \<open>
  The padded caption batch: its shape \<open>(B, L)\<close> and its \<open>B\<close> rows.
\<close>

datatype padded = Padded (pshape: "nat \<times> nat") (prows: "int list list")

text \<open>
  \<open>pad_sequence(seqs, batch_first=True, padding_value=v)\<close> on one-dimensional sequences:
  every row is extended on the right with \<open>v\<close> up to the longest length among \<open>seqs\<close>.
\<close>

definition max_len :: "int list list \<Rightarrow> nat" where
  "max_len seqs = foldr (\<lambda>s m. max (length s) m) seqs 0"

definition pad_sequence :: "int list list \<Rightarrow> int \<Rightarrow> py_error + padded" where
  "pad_sequence seqs padding_value =
     (if seqs = [] then Inl RuntimeError
      else Inr (Padded (length seqs, max_len seqs)
                  (map (\<lambda>s. s @ replicate (max_len seqs - length s) padding_value) seqs)))"

subsection \<open>Class \<open>Dataloader\<close>\<close>

record Dataloader =
  batch_size :: int
  shuffle :: bool
  subset_n :: int
  root_dir :: string
  img_size :: int
  prob_aug :: "(string \<times> real) list"

text \<open>
  \<open>Dataloader.__init__\<close>; the parameter \<open>subset\<close> defaults to \<open>0\<close>. The attributes
  \<open>_subset\<close>, \<open>_dir\<close> and \<open>_size\<close> are the fields \<open>subset_n\<close>, \<open>root_dir\<close> and \<open>img_size\<close>.
\<close>

definition Dataloader_init :: "int \<Rightarrow> int \<Rightarrow> bool \<Rightarrow> int option \<Rightarrow> Dataloader" where
  "Dataloader_init bs sz sh sub =
     \<lparr>batch_size = bs, shuffle = sh,
      subset_n = (case sub of None \<Rightarrow> 0 | Some n \<Rightarrow> n),
      root_dir = ''/home/hericlysdlarii/Projeto/coco-project/coco2017'',
      img_size = sz,
      prob_aug = [(''train2017'', 1 / 2), (''val2017'', 0), (''test2017'', 0)]\<rparr>"

text \<open>\<open>Dataloader._transform\<close>: a split that is no key of \<open>_prob_aug\<close> raises \<open>KeyError\<close>.\<close>

definition Dataloader_transform :: "Dataloader \<Rightarrow> string \<Rightarrow> py_error + aug_op list" where
  "Dataloader_transform dl image_split =
     (case map_of (prob_aug dl) image_split of
        None \<Rightarrow> Inl KeyError
      | Some p \<Rightarrow>
          Inr [Resize (img_size dl) (img_size dl),
               RandomBrightnessContrast p,
               HueSaturationValue p,
               HorizontalFlip p,
               VerticalFlip p,
               MyPreProcessing,
               ToTensorV2])"

text \<open>
  \<open>Dataloader._collate_fn\<close>. \<open>images, captions = zip(*batch)\<close> cannot unpack an empty
  batch; otherwise it yields the first and the second components.
\<close>

definition collate_fn ::
  "('a tensor \<times> int list) list \<Rightarrow> py_error + 'a tensor \<times> padded" where
  "collate_fn batch =
     (if batch = [] then Inl ValueError
      else case stack (map fst batch) of
             Inl e \<Rightarrow> Inl e
           | Inr images \<Rightarrow>
               (case pad_sequence (map snd batch) 0 of
                  Inl e \<Rightarrow> Inl e
                | Inr caps \<Rightarrow> Inr (images, caps)))"

subsection \<open>Datasets, \<open>Subset\<close> and \<open>get_dataloader\<close>\<close>

datatype dataset =
    DataDS Data
  | DataTestDS Data_test
  | Subset dataset "int list"

datatype 'img sample = Captioned 'img "int list" | ImageOnly 'img

fun dataset_len :: "dataset \<Rightarrow> nat" where
  "dataset_len (DataDS d) = Data_len d"
| "dataset_len (DataTestDS d) = Data_test_len d"
| "dataset_len (Subset ds indices) = length indices"

text \<open>
  \<open>Subset.__getitem__(idx)\<close> is \<open>self.dataset[self.indices[idx]]\<close>; indexing a \<open>range\<close>
  follows the rule of lists.
\<close>

fun dataset_getitem ::
  "'img env \<Rightarrow> nat \<Rightarrow> dataset \<Rightarrow> int \<Rightarrow> event list
     \<Rightarrow> (py_error + 'img sample) \<times> dataset \<times> event list" where
  "dataset_getitem env r (DataDS d) idx tr =
     (case Data_getitem env r idx \<lparr>self = d, trace = tr\<rparr> of
        (Inl e, st) \<Rightarrow> (Inl e, DataDS (self st), trace st)
      | (Inr (img, cap), st) \<Rightarrow> (Inr (Captioned img cap), DataDS (self st), trace st))"
| "dataset_getitem env r (DataTestDS d) idx tr =
     (case Data_test_getitem env idx \<lparr>self = d, trace = tr\<rparr> of
        (Inl e, st) \<Rightarrow> (Inl e, DataTestDS (self st), trace st)
      | (Inr img, st) \<Rightarrow> (Inr (ImageOnly img), DataTestDS (self st), trace st))"
| "dataset_getitem env r (Subset ds indices) idx tr =
     (case py_index indices idx of
        Inl e \<Rightarrow> (Inl e, Subset ds indices, tr)
      | Inr j \<Rightarrow>
          (case dataset_getitem env r ds j tr of
             (res, ds', tr') \<Rightarrow> (res, Subset ds' indices, tr')))"

datatype collate_kind = DefaultCollate | CustomCollate

record DataLoader =
  dl_dataset :: dataset
  dl_batch_size :: int
  dl_shuffle :: bool
  dl_collate :: collate_kind

text \<open>
  \<open>Dataloader.get_dataloader\<close>. The arguments of a constructor call are evaluated before
  the call, so \<open>_transform\<close> runs (and may raise) first. \<open>if self._subset:\<close> is the test
  \<open>subset \<noteq> 0\<close>. The batching facility itself only records its arguments here.
\<close>

definition get_dataloader ::
  "'img env \<Rightarrow> Dataloader \<Rightarrow> string \<Rightarrow> string option \<Rightarrow> event list
     \<Rightarrow> (py_error + DataLoader) \<times> event list" where
  "get_dataloader env dl image_split caption_split out =
     (if image_split = ''test2017''
      then (case Dataloader_transform dl image_split of
              Inl e \<Rightarrow> (Inl e, out)
            | Inr t \<Rightarrow>
                let dataset0 = DataTestDS (Data_test_init env (root_dir dl) image_split (Some t));
                    dataset1 = (if subset_n dl \<noteq> 0
                                then Subset dataset0 (py_range (subset_n dl)) else dataset0)
                in (Inr \<lparr>dl_dataset = dataset1, dl_batch_size = batch_size dl,
                         dl_shuffle = shuffle dl, dl_collate = DefaultCollate\<rparr>, out))
      else (case Dataloader_transform dl image_split of
              Inl e \<Rightarrow> (Inl e, out)
            | Inr t \<Rightarrow>
                (case Data_init env (root_dir dl) image_split caption_split (Some t) out of
                   (Inl e, out1) \<Rightarrow> (Inl e, out1)
                 | (Inr d, out1) \<Rightarrow>
                     let dataset0 = DataDS d;
                         dataset1 = (if subset_n dl \<noteq> 0
                                     then Subset dataset0 (py_range (subset_n dl)) else dataset0)
                     in (Inr \<lparr>dl_dataset = dataset1, dl_batch_size = batch_size dl,
                              dl_shuffle = shuffle dl, dl_collate = CustomCollate\<rparr>, out1))))"

definition get_train_dataloader ::
  "'img env \<Rightarrow> Dataloader \<Rightarrow> event list \<Rightarrow> (py_error + DataLoader) \<times> event list" where
  "get_train_dataloader env dl out = get_dataloader env dl ''train2017'' (Some ''captions'') out"

definition get_val_dataloader ::
  "'img env \<Rightarrow> Dataloader \<Rightarrow> event list \<Rightarrow> (py_error + DataLoader) \<times> event list" where
  "get_val_dataloader env dl out = get_dataloader env dl ''val2017'' (Some ''captions'') out"

definition get_test_dataloader ::
  "'img env \<Rightarrow> Dataloader \<Rightarrow> event list \<Rightarrow> (py_error + DataLoader) \<times> event list" where
  "get_test_dataloader env dl out = get_dataloader env dl ''test2017'' None out"

subsection \<open>A small dataset root used for concrete runs\<close>

text \<open>
  One image, \<open>/data/train2017/000123.jpg\<close>. Images are stood for by numbers; the
  tokenizer stand-in brackets the character codes of the text between 101 and 102, and
  the stand-in pipeline adds its number of stages to the image.
\<close>

definition ex_path :: string where
  "ex_path = ''/data/train2017/000123.jpg''"

definition ex_tokenize :: "string \<Rightarrow> string \<Rightarrow> int list" where
  "ex_tokenize name caption_text = [101] @ map (\<lambda>c. int (of_char c)) caption_text @ [102]"

definition ex_env :: "captions_store option \<Rightarrow> nat env" where
  "ex_env file =
     \<lparr>glob = (\<lambda>pat. if pat = ''/data/train2017/*.jpg'' then [ex_path] else []),
      read_json = (\<lambda>f. case file of
                          None \<Rightarrow> Inl FileNotFoundError
                        | Some js \<Rightarrow> if f = ''/data/captions/train_captions.json''
                                     then Inr js else Inl FileNotFoundError),
      imread = (\<lambda>p. if p = ex_path then Some 7 else None),
      tokenize = ex_tokenize,
      run_compose = (\<lambda>ops img. img + length ops)\<rparr>"

definition ex_data :: "captions_store \<Rightarrow> Data" where
  "ex_data store =
     \<lparr>image_dir = ''/data'', image_paths = [ex_path],
      caption_file_train = ''/data/captions/train_captions.json'',
      caption_file_val = ''/data/captions/val_captions.json'',
      transform = None, tokenizer = ''bert-base-uncased'', captions = store\<rparr>"

definition ex_anno :: "int \<Rightarrow> string list \<Rightarrow> anno" where
  "ex_anno n caps = \<lparr>anno_image_id = n, anno_captions = caps\<rparr>"

text \<open>A loader as the constructor builds it, pointed at the small root.\<close>

definition ex_dl :: "int option \<Rightarrow> Dataloader" where
  "ex_dl sub = (Dataloader_init 4 8 False sub)\<lparr>root_dir := ''/data''\<rparr>"

definition ex_pipeline :: "real \<Rightarrow> aug_op list" where
  "ex_pipeline p =
     [Resize 8 8, RandomBrightnessContrast p, HueSaturationValue p,
      HorizontalFlip p, VerticalFlip p, MyPreProcessing, ToTensorV2]"

section \<open>Properties\<close>

subsection \<open>Decimal text of integers\<close>

lemma digit_val_char: "d < 10 \<Longrightarrow> digit_val (digit_char d) = d"
proof -
  assume "d < 10"
  then have "d \<in> {0, 1, 2, 3, 4, 5, 6, 7, 8, 9}" by auto
  then show ?thesis by (auto simp: digit_val_def digit_char_def)
qed

lemma is_digit_char: "d < 10 \<Longrightarrow> is_digit (digit_char d)"
proof -
  assume "d < 10"
  then have "d \<in> {0, 1, 2, 3, 4, 5, 6, 7, 8, 9}" by auto
  then show ?thesis by (auto simp: is_digit_def digit_char_def)
qed

lemma digits_value_snoc: "digits_value (ds @ [c]) = 10 * digits_value ds + digit_val c"
  by (simp add: digits_value_def)

lemma digits_value_str_nat: "digits_value (str_nat n) = n"
proof (induction n rule: str_nat.induct)
  case (1 n)
  show ?case
  proof (cases "n < 10")
    case True
    then show ?thesis by (simp add: str_nat.simps [of n] digits_value_def digit_val_char)
  next
    case False
    with 1 show ?thesis
      by (simp add: str_nat.simps [of n] digits_value_snoc digit_val_char)
  qed
qed

lemma str_nat_inj: "str_nat a = str_nat b \<Longrightarrow> a = b"
  by (metis digits_value_str_nat)

lemma hd_str_nat_digit: "str_nat n \<noteq> [] \<and> is_digit (hd (str_nat n))"
proof (induction n rule: str_nat.induct)
  case (1 n)
  show ?case
  proof (cases "n < 10")
    case True
    then show ?thesis by (simp add: str_nat.simps [of n] is_digit_char)
  next
    case False
    with 1 show ?thesis
      by (simp add: str_nat.simps [of n])
  qed
qed

lemma str_nat_no_minus: "str_nat n \<noteq> CHR ''-'' # s"
proof
  assume h: "str_nat n = CHR ''-'' # s"
  have "is_digit (hd (str_nat n))" using hd_str_nat_digit by blast
  with h show False by (simp add: is_digit_def)
qed

lemma py_str_inj: "py_str a = py_str b \<longleftrightarrow> a = b"
proof
  assume h: "py_str a = py_str b"
  show "a = b"
  proof (cases "a < 0"; cases "b < 0")
    assume "a < 0" "b < 0"
    with h have "nat (- a) = nat (- b)" by (simp add: py_str_def str_nat_inj)
    with \<open>a < 0\<close> \<open>b < 0\<close> show ?thesis by simp
  next
    assume "a < 0" "\<not> b < 0"
    with h show ?thesis using str_nat_no_minus [of "nat b" "str_nat (nat (- a))"]
      by (simp add: py_str_def)
  next
    assume "\<not> a < 0" "b < 0"
    with h show ?thesis using str_nat_no_minus [of "nat a" "str_nat (nat (- b))"]
      by (simp add: py_str_def)
  next
    assume "\<not> a < 0" "\<not> b < 0"
    with h have "nat a = nat b" by (simp add: py_str_def str_nat_inj)
    with \<open>\<not> a < 0\<close> \<open>\<not> b < 0\<close> show ?thesis by simp
  qed
qed simp

lemma resolve_captions_last: "xs \<noteq> [] \<Longrightarrow> resolve_captions xs = last xs"
  unfolding resolve_captions_def
  by (induction xs rule: rev_induct) simp_all

lemma resolve_captions_Nil: "resolve_captions [] = []"
  by (simp add: resolve_captions_def)

lemma match_captions_int:
  "match_captions cs (py_str n) =
     map anno_captions (filter (\<lambda>a. anno_image_id a = n) (iter_store cs))"
  by (simp add: match_captions_def py_str_inj)

lemma match_captions_none:
  "list_all (\<lambda>a. anno_image_id a \<noteq> n) (iter_store cs) \<Longrightarrow> match_captions cs (py_str n) = []"
  by (simp add: match_captions_int list_all_iff filter_empty_conv)

lemma image_id_of_int:
  "py_int (split_dot_0 (basename image_path)) = Inr n \<Longrightarrow> image_id_of image_path = Inr (py_str n)"
  by (simp add: image_id_of_def)

lemma randint_empty: "randint r 0 (- 1) = Inl ValueError"
  by (simp add: randint_def)

lemma randint_nonempty: "0 < k \<Longrightarrow> randint r 0 (int k - 1) = Inr (int (r mod k))"
  by (simp add: randint_def)

lemma py_index_nat: "k < length xs \<Longrightarrow> py_index xs (int k) = Inr (xs ! k)"
  by (simp add: py_index_def)


subsection \<open>Facts about the concrete dataset root\<close>

lemma ex_stem: "py_int (split_dot_0 (basename ex_path)) = Inr 123"
  by (simp add: ex_path_def basename_def split_dot_0_def py_int_def py_strip_def is_space_def
      is_digit_def digits_value_def digit_val_def)

lemma py_str_123: "py_str 123 = ''123''"
  by (simp add: py_str_def str_nat.simps digit_char_def)

lemma py_str_7: "py_str 7 = ''7''"
  by (simp add: py_str_def str_nat.simps digit_char_def)


subsection \<open>Access to an image without captions\<close>

text \<open>
  C1, as the code has it. When the accessed image is found and decoded, its file stem
  reads as the integer \<open>n\<close>, and no caption record carries \<open>n\<close>, then \<open>__getitem__\<close>
  prints the warning and fails in \<open>random.randint(0, -1)\<close>, which raises \<open>ValueError\<close>
  (an empty range), not \<open>IndexError\<close>. The trace of the call holds the image read and
  the warning only: no text was tokenized and no transform was run.
\<close>

theorem getitem_without_captions:
  assumes "py_index (image_paths (self st)) idx = Inr image_path"
      and "imread env image_path = Some img"
      and "py_int (split_dot_0 (basename image_path)) = Inr n"
      and "list_all (\<lambda>a. anno_image_id a \<noteq> n) (iter_store (captions (self st)))"
  shows "Data_getitem env r idx st =
           (Inl ValueError,
            st\<lparr>trace := trace st @ [Imread image_path, Print (no_captions_msg (py_str n))]\<rparr>)"
proof -
  have m: "match_captions (captions (self st)) (py_str n) = []"
    using assms(4) by (rule match_captions_none)
  have i: "image_id_of image_path = Inr (py_str n)"
    using assms(3) by (rule image_id_of_int)
  show ?thesis
    by (simp add: Data_getitem_def assms(1) assms(2) i m emit_def resolve_captions_Nil
        randint_empty)
qed

theorem getitem_without_captions_witness:
  "Data_getitem (ex_env None) 0 0
      \<lparr>self = ex_data (JsonArray [ex_anno 7 [''a cat'']]), trace = []\<rparr> =
     (Inl ValueError,
      \<lparr>self = ex_data (JsonArray [ex_anno 7 [''a cat'']]),
       trace = [Imread ex_path,
                Print ''No captions found for image ID 123. Returning an empty caption.'']\<rparr>)"
  using getitem_without_captions [of "\<lparr>self = ex_data (JsonArray [ex_anno 7 [''a cat'']]), trace = []\<rparr>"
      0 ex_path "ex_env None" 7 123 0] ex_stem
  by (simp add: ex_data_def ex_env_def ex_anno_def py_index_def py_str_123 no_captions_msg_def)


text \<open>
  The claim as first stated names \<open>IndexError\<close>. At the concrete root, with a caption file
  that only knows image 7, the access to image 123 meets every condition of the claim and
  does not end in \<open>IndexError\<close>.
\<close>

theorem getitem_without_captions_not_IndexError:
  "py_index (image_paths (ex_data (JsonArray [ex_anno 7 [''a cat'']]))) 0 = Inr ex_path \<and>
   imread (ex_env None) ex_path = Some 7 \<and>
   py_int (split_dot_0 (basename ex_path)) = Inr 123 \<and>
   match_captions (captions (ex_data (JsonArray [ex_anno 7 [''a cat'']]))) (py_str 123) = [] \<and>
   fst (Data_getitem (ex_env None) 0 0
          \<lparr>self = ex_data (JsonArray [ex_anno 7 [''a cat'']]), trace = []\<rparr>) \<noteq> Inl IndexError"
  by (simp add: ex_stem Data_getitem_def image_id_of_def py_str_123 match_captions_def
      ex_data_def ex_env_def ex_anno_def py_index_def emit_def resolve_captions_def randint_def
      py_str_7)

subsection \<open>The provider object is not modified by an access\<close>

text \<open>
  C9. \<open>__getitem__\<close> assigns to no attribute of \<open>self\<close>: whatever the index, the
  random draw and the outcome (a sample or an error), the object after the call is the
  object before it, so its caption set, its image paths and its transform are the same.
  This holds for the captioned provider and for the image-only provider. Only the trace
  of the outside world grows.
\<close>

theorem self_unchanged_by_getitem:
  "self (snd (Data_getitem env r idx st)) = self st \<and>
   self (snd (Data_test_getitem env idx st')) = self st'"
  by (simp add: Data_getitem_def Data_test_getitem_def emit_def Let_def
      split: sum.splits option.splits)

subsection \<open>Access when some record matches\<close>

lemma Data_getitem_with_captions:
  assumes "py_index (image_paths (self st)) idx = Inr image_path"
      and "imread env image_path = Some img"
      and "image_id_of image_path = Inr image_id"
      and "match_captions (captions (self st)) image_id \<noteq> []"
      and "resolve_captions (match_captions (captions (self st)) image_id) = L"
      and "L \<noteq> []"
  shows "Data_getitem env r idx st =
           (Inr (if truthy (transform (self st))
                 then run_compose env (the (transform (self st))) img else img,
                 tokenize env (tokenizer (self st)) (py_strip (L ! (r mod length L)))),
            st\<lparr>trace := trace st @
                   [Imread image_path, Tokenize (py_strip (L ! (r mod length L)))] @
                   (if truthy (transform (self st)) then [Transform] else [])\<rparr>)"
proof -
  have k: "0 < length L" using assms(6) by simp
  have ri: "randint r 0 (int (length L) - 1) = Inr (int (r mod length L))"
    using k by (rule randint_nonempty)
  have pi: "py_index L (int (r mod length L)) = Inr (L ! (r mod length L))"
    using k by (simp add: py_index_nat)
  show ?thesis
    by (simp add: Data_getitem_def assms(1) assms(2) assms(3) assms(4) assms(5) ri pi emit_def Let_def)
qed

lemma Data_getitem_matched_empty:
  assumes "py_index (image_paths (self st)) idx = Inr image_path"
      and "imread env image_path = Some img"
      and "image_id_of image_path = Inr image_id"
      and "match_captions (captions (self st)) image_id \<noteq> []"
      and "resolve_captions (match_captions (captions (self st)) image_id) = []"
  shows "Data_getitem env r idx st = (Inl ValueError, st\<lparr>trace := trace st @ [Imread image_path]\<rparr>)"
  by (simp add: Data_getitem_def assms emit_def randint_empty)


text \<open>
  C3. When two or more records of the caption set carry the integer ID \<open>n\<close> of the
  accessed image, the caption list that \<open>__getitem__\<close> resolves is the list of the last
  such record in file order, and the access goes on with that list alone: it draws an
  index into it, tokenizes the stripped caption found there and returns it with the
  (transformed) image, or fails in the draw when that last record has no caption.
\<close>

theorem last_matching_record_wins:
  assumes "py_index (image_paths (self st)) idx = Inr image_path"
      and "imread env image_path = Some img"
      and "py_int (split_dot_0 (basename image_path)) = Inr n"
      and "2 \<le> length (filter (\<lambda>a. anno_image_id a = n) (iter_store (captions (self st))))"
      and "L = anno_captions (last (filter (\<lambda>a. anno_image_id a = n) (iter_store (captions (self st)))))"
  shows "resolve_captions (match_captions (captions (self st)) (py_str n)) = L \<and>
         Data_getitem env r idx st =
           (if L = [] then (Inl ValueError, st\<lparr>trace := trace st @ [Imread image_path]\<rparr>)
            else (Inr (if truthy (transform (self st))
                       then run_compose env (the (transform (self st))) img else img,
                       tokenize env (tokenizer (self st)) (py_strip (L ! (r mod length L)))),
                  st\<lparr>trace := trace st @
                         [Imread image_path, Tokenize (py_strip (L ! (r mod length L)))] @
                         (if truthy (transform (self st)) then [Transform] else [])\<rparr>))"
proof -
  let ?ms = "filter (\<lambda>a. anno_image_id a = n) (iter_store (captions (self st)))"
  have ne: "?ms \<noteq> []" using assms(4) by auto
  have mc: "match_captions (captions (self st)) (py_str n) = map anno_captions ?ms"
    by (rule match_captions_int)
  have mne: "match_captions (captions (self st)) (py_str n) \<noteq> []"
    using ne mc by simp
  have res: "resolve_captions (match_captions (captions (self st)) (py_str n)) = L"
    using ne mne by (simp add: resolve_captions_last mc last_map assms(5))
  have iid: "image_id_of image_path = Inr (py_str n)"
    using assms(3) by (rule image_id_of_int)
  show ?thesis
  proof (cases "L = []")
    case True
    have "Data_getitem env r idx st = (Inl ValueError, st\<lparr>trace := trace st @ [Imread image_path]\<rparr>)"
      using assms(1) assms(2) iid mne res [unfolded True] by (rule Data_getitem_matched_empty)
    with res True show ?thesis by simp
  next
    case False
    from Data_getitem_with_captions [OF assms(1) assms(2) iid mne res False, of r] res False
    show ?thesis by simp
  qed
qed

theorem last_matching_record_wins_witness:
  "resolve_captions (match_captions
       (JsonArray [ex_anno 123 [''first''], ex_anno 7 [''x''], ex_anno 123 [''a dog'', ''a puppy'']])
       (py_str 123)) = [''a dog'', ''a puppy''] \<and>
   Data_getitem (ex_env None) 1 0
      \<lparr>self = ex_data (JsonArray [ex_anno 123 [''first''], ex_anno 7 [''x''],
                                   ex_anno 123 [''a dog'', ''a puppy'']]), trace = []\<rparr> =
     (Inr (7, ex_tokenize ''bert-base-uncased'' ''a puppy''),
      \<lparr>self = ex_data (JsonArray [ex_anno 123 [''first''], ex_anno 7 [''x''],
                                   ex_anno 123 [''a dog'', ''a puppy'']]),
       trace = [Imread ex_path, Tokenize ''a puppy'']\<rparr>)"
  using last_matching_record_wins [of
      "\<lparr>self = ex_data (JsonArray [ex_anno 123 [''first''], ex_anno 7 [''x''],
                                   ex_anno 123 [''a dog'', ''a puppy'']]), trace = []\<rparr>"
      0 ex_path "ex_env None" 7 123 "[''a dog'', ''a puppy'']" 1] ex_stem
  by (simp add: ex_data_def ex_env_def ex_anno_def py_index_def py_strip_def is_space_def)

subsection \<open>A missing caption file\<close>

lemma match_captions_EmptyDict: "match_captions EmptyDict image_id = []"
  by (simp add: match_captions_def)

lemma Data_init_missing_file:
  assumes "read_json env (if image_split = ''train2017''
                          then dir0 @ ''/'' @ fmt_opt caption_split @ ''/train_captions.json''
                          else dir0 @ ''/'' @ fmt_opt caption_split @ ''/val_captions.json'') =
             Inl FileNotFoundError"
  shows "\<exists>d. Data_init env dir0 image_split caption_split tr out =
               (Inr d, out @ [Print (''Caption file for '' @ image_split @ '' not found.'')]) \<and>
             captions d = EmptyDict \<and>
             image_paths d = glob env (dir0 @ ''/'' @ image_split @ ''/*.jpg'')"
  using assms by (cases "image_split = ''train2017''") (simp_all add: Data_init_def Let_def)


text \<open>
  C2, evaluated on the code. When the caption file of the split does not exist, the
  constructor succeeds, reports the missing file and keeps the empty dictionary; every
  lookup on that store finds nothing. For every image that is found, decoded and whose
  stem reads as an integer, the access then prints the warning, whose text announces
  that an empty caption is returned, and nevertheless ends in \<open>ValueError\<close> from
  \<open>random.randint(0, -1)\<close>: the access does crash.
\<close>

theorem missing_caption_file_access_fails:
  assumes "read_json env (if image_split = ''train2017''
                          then dir0 @ ''/'' @ fmt_opt caption_split @ ''/train_captions.json''
                          else dir0 @ ''/'' @ fmt_opt caption_split @ ''/val_captions.json'') =
             Inl FileNotFoundError"
      and "py_index (glob env (dir0 @ ''/'' @ image_split @ ''/*.jpg'')) idx = Inr image_path"
      and "imread env image_path = Some img"
      and "py_int (split_dot_0 (basename image_path)) = Inr n"
  shows "\<exists>d. Data_init env dir0 image_split caption_split tr out =
               (Inr d, out @ [Print (''Caption file for '' @ image_split @ '' not found.'')]) \<and>
             captions d = EmptyDict \<and>
             match_captions (captions d) (py_str n) = [] \<and>
             Data_getitem env r idx \<lparr>self = d, trace = tr0\<rparr> =
               (Inl ValueError,
                \<lparr>self = d,
                 trace = tr0 @ [Imread image_path, Print (no_captions_msg (py_str n))]\<rparr>)"
proof -
  from Data_init_missing_file [OF assms(1), of tr out] obtain d where
    d: "Data_init env dir0 image_split caption_split tr out =
          (Inr d, out @ [Print (''Caption file for '' @ image_split @ '' not found.'')])"
    and c: "captions d = EmptyDict"
    and p: "image_paths d = glob env (dir0 @ ''/'' @ image_split @ ''/*.jpg'')"
    by blast
  have i: "image_id_of image_path = Inr (py_str n)"
    using assms(4) by (rule image_id_of_int)
  have g: "Data_getitem env r idx \<lparr>self = d, trace = tr0\<rparr> =
             (Inl ValueError,
              \<lparr>self = d, trace = tr0 @ [Imread image_path, Print (no_captions_msg (py_str n))]\<rparr>)"
    using assms(2) assms(3)
    by (simp add: Data_getitem_def p c i match_captions_EmptyDict emit_def
        resolve_captions_Nil randint_empty)
  from d c g show ?thesis by (simp add: match_captions_EmptyDict)
qed

lemma ex_init_nofile:
  "Data_init (ex_env None) ''/data'' ''train2017'' (Some ''captions'') None [] =
     (Inr (ex_data EmptyDict), [Print ''Caption file for train2017 not found.''])"
  by (simp add: Data_init_def ex_env_def ex_data_def)

theorem missing_caption_file_access_fails_witness:
  "Data_init (ex_env None) ''/data'' ''train2017'' (Some ''captions'') None [] =
     (Inr (ex_data EmptyDict), [Print ''Caption file for train2017 not found.'']) \<and>
   captions (ex_data EmptyDict) = EmptyDict \<and>
   Data_getitem (ex_env None) 0 0 \<lparr>self = ex_data EmptyDict, trace = []\<rparr> =
     (Inl ValueError,
      \<lparr>self = ex_data EmptyDict,
       trace = [Imread ex_path,
                Print ''No captions found for image ID 123. Returning an empty caption.'']\<rparr>)"
proof -
  have r: "read_json (ex_env None)
             (if ''train2017'' = ''train2017''
              then ''/data'' @ ''/'' @ fmt_opt (Some ''captions'') @ ''/train_captions.json''
              else ''/data'' @ ''/'' @ fmt_opt (Some ''captions'') @ ''/val_captions.json'') =
           Inl FileNotFoundError"
    by (simp add: ex_env_def)
  have p: "py_index (glob (ex_env None) (''/data'' @ ''/'' @ ''train2017'' @ ''/*.jpg'')) 0 = Inr ex_path"
    by (simp add: ex_env_def py_index_def)
  have i: "imread (ex_env None) ex_path = Some 7"
    by (simp add: ex_env_def)
  from missing_caption_file_access_fails [OF r p i ex_stem, of None "[]" 0 "[]"]
  show ?thesis
    by (simp add: ex_init_nofile py_str_123 no_captions_msg_def)
qed


subsection \<open>The worked example: one image, one record, one caption\<close>

lemma basename_example: "basename (dir0 @ ''/train2017/000123.jpg'') = ''000123.jpg''"
  by (simp add: basename_def)

lemma stem_example: "py_int (split_dot_0 (basename (dir0 @ ''/train2017/000123.jpg''))) = Inr 123"
  by (simp add: basename_example split_dot_0_def py_int_def py_strip_def is_space_def
      is_digit_def digits_value_def digit_val_def)

lemma strip_a_dog: "py_strip ''a dog'' = ''a dog''"
  by (simp add: py_strip_def is_space_def)


text \<open>
  C6. Under any dataset root whose \<open>train2017\<close> directory holds exactly \<open>000123.jpg\<close>
  and whose train caption file is the single record with ID 123 and caption \<open>a dog\<close>,
  construction succeeds, the stem \<open>000123\<close> and the record ID 123 both render to the
  text \<open>123\<close> and so match, and for every random draw the access to index 0 returns the
  tokens of \<open>a dog\<close> together with the image, transformed when a transform is configured.
  The result does not depend on the draw.
\<close>

theorem example_a_dog:
  assumes "glob env (dir0 @ ''/train2017/*.jpg'') = [dir0 @ ''/train2017/000123.jpg'']"
      and "read_json env (dir0 @ ''/captions/train_captions.json'') =
             Inr (JsonArray [\<lparr>anno_image_id = 123, anno_captions = [''a dog'']\<rparr>])"
      and "imread env (dir0 @ ''/train2017/000123.jpg'') = Some img"
  shows "\<exists>d. Data_init env dir0 ''train2017'' (Some ''captions'') tr out = (Inr d, out) \<and>
             Data_len d = 1 \<and>
             image_id_of (dir0 @ ''/train2017/000123.jpg'') = Inr ''123'' \<and>
             match_captions (captions d) ''123'' = [[''a dog'']] \<and>
             (\<forall>r. Data_getitem env r 0 \<lparr>self = d, trace = out\<rparr> =
                    (Inr (if truthy tr then run_compose env (the tr) img else img,
                          tokenize env ''bert-base-uncased'' ''a dog''),
                     \<lparr>self = d,
                      trace = out @ [Imread (dir0 @ ''/train2017/000123.jpg''), Tokenize ''a dog''] @
                              (if truthy tr then [Transform] else [])\<rparr>))"
proof -
  let ?p = "dir0 @ ''/train2017/000123.jpg''"
  let ?d = "\<lparr>image_dir = dir0, image_paths = [?p],
             caption_file_train = dir0 @ ''/captions/train_captions.json'',
             caption_file_val = dir0 @ ''/captions/val_captions.json'',
             transform = tr, tokenizer = ''bert-base-uncased'',
             captions = JsonArray [\<lparr>anno_image_id = 123, anno_captions = [''a dog'']\<rparr>]\<rparr>"
  have init: "Data_init env dir0 ''train2017'' (Some ''captions'') tr out = (Inr ?d, out)"
    using assms(1) assms(2) by (simp add: Data_init_def)
  have iid: "image_id_of ?p = Inr ''123''"
    using image_id_of_int [OF stem_example, of dir0] by (simp add: py_str_123)
  have mc: "match_captions (captions ?d) ''123'' = [[''a dog'']]"
    using match_captions_int [of "captions ?d" 123] by (simp add: py_str_123)
  have rc: "resolve_captions (match_captions (captions ?d) ''123'') = [''a dog'']"
    using mc by (simp add: resolve_captions_def)
  have pi: "py_index (image_paths (self \<lparr>self = ?d, trace = out\<rparr>)) 0 = Inr ?p"
    by (simp add: py_index_def)
  have get: "Data_getitem env r 0 \<lparr>self = ?d, trace = out\<rparr> =
               (Inr (if truthy tr then run_compose env (the tr) img else img,
                     tokenize env ''bert-base-uncased'' ''a dog''),
                \<lparr>self = ?d,
                 trace = out @ [Imread ?p, Tokenize ''a dog''] @
                         (if truthy tr then [Transform] else [])\<rparr>)" for r
    using Data_getitem_with_captions [of "\<lparr>self = ?d, trace = out\<rparr>" 0 ?p env img
        "''123''" "[''a dog'']" r] pi assms(3) iid mc rc
    by (simp add: strip_a_dog)
  have len: "Data_len ?d = 1" by (simp add: Data_len_def)
  from init len iid mc get show ?thesis by blast
qed

theorem example_a_dog_witness:
  "Data_init (ex_env (Some (JsonArray [ex_anno 123 [''a dog'']]))) ''/data'' ''train2017''
      (Some ''captions'') (Some [Resize 2 2, ToTensorV2]) [] =
     (Inr ((ex_data (JsonArray [ex_anno 123 [''a dog'']]))
              \<lparr>transform := Some [Resize 2 2, ToTensorV2]\<rparr>), []) \<and>
   Data_getitem (ex_env (Some (JsonArray [ex_anno 123 [''a dog'']]))) 5 0
      \<lparr>self = (ex_data (JsonArray [ex_anno 123 [''a dog'']]))
                 \<lparr>transform := Some [Resize 2 2, ToTensorV2]\<rparr>, trace = []\<rparr> =
     (Inr (9, [101, 97, 32, 100, 111, 103, 102]),
      \<lparr>self = (ex_data (JsonArray [ex_anno 123 [''a dog'']]))
                 \<lparr>transform := Some [Resize 2 2, ToTensorV2]\<rparr>,
       trace = [Imread ex_path, Tokenize ''a dog'', Transform]\<rparr>)"
proof -
  let ?E = "ex_env (Some (JsonArray [ex_anno 123 [''a dog'']]))"
  let ?D = "(ex_data (JsonArray [ex_anno 123 [''a dog'']]))\<lparr>transform := Some [Resize 2 2, ToTensorV2]\<rparr>"
  have g: "glob ?E (''/data'' @ ''/train2017/*.jpg'') = [''/data'' @ ''/train2017/000123.jpg'']"
    by (simp add: ex_env_def ex_path_def)
  have j: "read_json ?E (''/data'' @ ''/captions/train_captions.json'') =
             Inr (JsonArray [\<lparr>anno_image_id = 123, anno_captions = [''a dog'']\<rparr>])"
    by (simp add: ex_env_def ex_anno_def)
  have i: "imread ?E (''/data'' @ ''/train2017/000123.jpg'') = Some 7"
    by (simp add: ex_env_def ex_path_def)
  have init: "Data_init ?E ''/data'' ''train2017'' (Some ''captions'')
                (Some [Resize 2 2, ToTensorV2]) [] = (Inr ?D, [])"
    by (simp add: Data_init_def ex_env_def ex_data_def ex_anno_def)
  from example_a_dog [OF g j i, of "Some [Resize 2 2, ToTensorV2]" "[]"] init
  have "Data_getitem ?E 5 0 \<lparr>self = ?D, trace = []\<rparr> =
          (Inr (run_compose ?E [Resize 2 2, ToTensorV2] 7,
                tokenize ?E ''bert-base-uncased'' ''a dog''),
           \<lparr>self = ?D, trace = [Imread (''/data'' @ ''/train2017/000123.jpg''),
                                 Tokenize ''a dog'', Transform]\<rparr>)"
    by auto
  then show ?thesis using init
    by (simp add: ex_env_def ex_tokenize_def ex_path_def)
qed

subsection \<open>Collation\<close>

lemma max_len_Max: "seqs \<noteq> [] \<Longrightarrow> max_len seqs = Max (set (map length seqs))"
proof (induction seqs)
  case Nil
  then show ?case by simp
next
  case (Cons s seqs)
  show ?case
  proof (cases "seqs = []")
    case True
    then show ?thesis by (simp add: max_len_def)
  next
    case False
    with Cons have "max_len seqs = Max (set (map length seqs))" by simp
    with False show ?thesis by (simp add: max_len_def)
  qed
qed

lemma length_le_max_len: "s \<in> set seqs \<Longrightarrow> length s \<le> max_len seqs"
  by (induction seqs) (auto simp: max_len_def)

lemma stack_same_shape:
  assumes "ts \<noteq> []" and "list_all (\<lambda>u. shape u = shape (hd ts)) ts"
  shows "stack ts = Inr (Tensor (length ts # shape (hd ts)) (concat (map elems ts)))"
  using assms by (cases ts) (simp_all add: stack_def)

lemma collate_fn_Inr:
  assumes "collate_fn batch = Inr (images, caps)"
  shows "batch \<noteq> [] \<and> stack (map fst batch) = Inr images \<and>
         caps = Padded (length batch, max_len (map snd batch))
                  (map (\<lambda>s. s @ replicate (max_len (map snd batch) - length s) 0)
                     (map snd batch))"
  using assms
  by (auto simp: collate_fn_def pad_sequence_def split: if_splits sum.splits)

lemma padded_rows_rectangular:
  "list_all (\<lambda>row. length row = max_len cs)
     (map (\<lambda>s. s @ replicate (max_len cs - length s) v) cs)"
proof -
  have "length (s @ replicate (max_len cs - length s) v) = max_len cs" if "s \<in> set cs" for s
    using length_le_max_len [OF that] by simp
  then show ?thesis by (simp add: list_all_iff)
qed

lemma collate_fn_same_shape:
  assumes "batch \<noteq> []"
      and "list_all (\<lambda>b. shape (fst b) = shape (fst (hd batch))) batch"
  shows "collate_fn batch =
           Inr (Tensor (length batch # shape (fst (hd batch))) (concat (map elems (map fst batch))),
                Padded (length batch, max_len (map snd batch))
                  (map (\<lambda>s. s @ replicate (max_len (map snd batch) - length s) 0)
                     (map snd batch)))"
proof -
  have ne: "map fst batch \<noteq> []" using assms(1) by simp
  have hd: "hd (map fst batch) = fst (hd batch)" using assms(1) by (simp add: hd_map)
  have same: "list_all (\<lambda>u. shape u = shape (hd (map fst batch))) (map fst batch)"
    unfolding hd list.pred_map comp_def by (rule assms(2))
  have st: "stack (map fst batch) =
              Inr (Tensor (length (map fst batch) # shape (hd (map fst batch)))
                     (concat (map elems (map fst batch))))"
    using ne same by (rule stack_same_shape)
  show ?thesis
    unfolding collate_fn_def pad_sequence_def st hd using assms(1) by simp
qed


text \<open>
  C4. For every non-empty batch whose images all have one shape (what \<open>torch.stack\<close>
  requires, and what the fixed resize provides), \<open>_collate_fn\<close> returns an image batch
  and a caption batch; the leading dimension of both is the number of samples, and the
  second dimension of the caption batch is the greatest caption length of this very
  batch. Every row of the caption batch has that length.
\<close>

theorem collate_shapes:
  assumes "batch \<noteq> []"
      and "list_all (\<lambda>b. shape (fst b) = shape (fst (hd batch))) batch"
  shows "\<exists>images caps.
           collate_fn batch = Inr (images, caps) \<and>
           hd (shape images) = length batch \<and>
           fst (pshape caps) = length batch \<and>
           snd (pshape caps) = Max (set (map (\<lambda>b. length (snd b)) batch)) \<and>
           length (prows caps) = length batch \<and>
           list_all (\<lambda>row. length row = snd (pshape caps)) (prows caps)"
proof -
  let ?images = "Tensor (length batch # shape (fst (hd batch))) (concat (map elems (map fst batch)))"
  let ?caps = "Padded (length batch, max_len (map snd batch))
                  (map (\<lambda>s. s @ replicate (max_len (map snd batch) - length s) 0)
                     (map snd batch))"
  have col: "collate_fn batch = Inr (?images, ?caps)"
    using assms by (rule collate_fn_same_shape)
  have ne: "map snd batch \<noteq> []" using assms(1) by simp
  have mx: "max_len (map snd batch) = Max (set (map (\<lambda>b. length (snd b)) batch))"
    using max_len_Max [OF ne] by (simp add: comp_def)
  have rows: "list_all (\<lambda>row. length row = snd (pshape ?caps)) (prows ?caps)"
    using padded_rows_rectangular [of "map snd batch" 0] by simp
  have "hd (shape ?images) = length batch" by simp
  moreover have "fst (pshape ?caps) = length batch" by simp
  moreover have "snd (pshape ?caps) = Max (set (map (\<lambda>b. length (snd b)) batch))"
    using mx by simp
  moreover have "length (prows ?caps) = length batch" by simp
  ultimately show ?thesis using col rows by blast
qed

theorem collate_shapes_witness:
  "collate_fn [(Tensor [1, 2] [5, 6 :: nat], [101, 7, 102]), (Tensor [1, 2] [8, 9], [101, 102])] =
     Inr (Tensor [2, 1, 2] [5, 6, 8, 9], Padded (2, 3) [[101, 7, 102], [101, 102, 0]])"
proof -
  let ?b = "[(Tensor [1, 2] [5, 6 :: nat], [101, 7, 102 :: int]), (Tensor [1, 2] [8, 9], [101, 102])]"
  have a: "?b \<noteq> []" by simp
  have b: "list_all (\<lambda>b. shape (fst b) = shape (fst (hd ?b))) ?b" by simp
  from collate_shapes [OF a b] obtain images caps where
    "collate_fn ?b = Inr (images, caps)" by blast
  moreover have "collate_fn ?b =
      Inr (Tensor [2, 1, 2] [5, 6, 8, 9], Padded (2, 3) [[101, 7, 102], [101, 102, 0]])"
    by (simp add: collate_fn_def stack_def pad_sequence_def max_len_def)
  ultimately show ?thesis by simp
qed


text \<open>
  C5. Whenever \<open>_collate_fn\<close> returns, row \<open>i\<close> of the caption batch is the caption of
  sample \<open>i\<close> followed by zeros only: its first \<open>len\<close> entries are the source sequence
  unchanged, and everything after them is the padding value 0.
\<close>

theorem collate_right_pads_with_zero:
  assumes "collate_fn batch = Inr (images, caps)"
      and "i < length batch"
  shows "length (snd (batch ! i)) \<le> snd (pshape caps) \<and>
         prows caps ! i =
           snd (batch ! i) @ replicate (snd (pshape caps) - length (snd (batch ! i))) 0 \<and>
         take (length (snd (batch ! i))) (prows caps ! i) = snd (batch ! i) \<and>
         drop (length (snd (batch ! i))) (prows caps ! i) =
           replicate (snd (pshape caps) - length (snd (batch ! i))) 0"
proof -
  from collate_fn_Inr [OF assms(1)] have
    caps: "caps = Padded (length batch, max_len (map snd batch))
                  (map (\<lambda>s. s @ replicate (max_len (map snd batch) - length s) 0)
                     (map snd batch))"
    by simp
  have "snd (batch ! i) \<in> set (map snd batch)" using assms(2) by simp
  then have le: "length (snd (batch ! i)) \<le> max_len (map snd batch)"
    by (rule length_le_max_len)
  from caps le assms(2) show ?thesis by simp
qed

theorem collate_right_pads_with_zero_witness:
  "prows (Padded (2, 3) [[101, 7, 102], [101, 102, 0]]) ! 1 = [101, 102] @ replicate (3 - 2) 0 \<and>
   take 2 (prows (Padded (2, 3) [[101, 7, 102], [101, 102, 0]]) ! 1) = [101, 102]"
proof -
  let ?b = "[(Tensor [1, 2] [5, 6 :: nat], [101, 7, 102 :: int]), (Tensor [1, 2] [8, 9], [101, 102])]"
  have c: "collate_fn ?b =
      Inr (Tensor [2, 1, 2] [5, 6, 8, 9], Padded (2, 3) [[101, 7, 102], [101, 102, 0]])"
    by (simp add: collate_fn_def stack_def pad_sequence_def max_len_def)
  have i: "1 < length ?b" by simp
  from collate_right_pads_with_zero [OF c i] show ?thesis by simp
qed

subsection \<open>The transform of a split\<close>


text \<open>Any other split name is no key of the probability table.\<close>

lemma transform_unknown_split:
  "image_split \<notin> {''train2017'', ''val2017'', ''test2017''} \<Longrightarrow>
   Dataloader_transform (Dataloader_init bs sz sh sub) image_split = Inl KeyError"
  by (simp add: Dataloader_transform_def Dataloader_init_def)

subsection \<open>Building the loader: the subset restriction\<close>

lemma length_py_range: "int (length (py_range n)) = max 0 n"
  by (simp add: py_range_def)

lemma py_index_py_range: "0 \<le> i \<Longrightarrow> i < n \<Longrightarrow> py_index (py_range n) i = Inr i"
  by (simp add: py_index_def py_range_def)

lemma Data_init_paths:
  "Data_init env dir0 image_split caption_split tr out = (Inr d, out1) \<Longrightarrow>
   image_paths d = glob env (dir0 @ ''/'' @ image_split @ ''/*.jpg'')"
  by (auto simp: Data_init_def Let_def split: sum.splits py_error.splits)

lemma get_dataloader_test:
  "get_dataloader env dl ''test2017'' caption_split out =
     (case Dataloader_transform dl ''test2017'' of
        Inl e \<Rightarrow> (Inl e, out)
      | Inr t \<Rightarrow>
          (Inr \<lparr>dl_dataset =
                   (if subset_n dl \<noteq> 0
                    then Subset (DataTestDS (Data_test_init env (root_dir dl) ''test2017'' (Some t)))
                           (py_range (subset_n dl))
                    else DataTestDS (Data_test_init env (root_dir dl) ''test2017'' (Some t))),
                 dl_batch_size = batch_size dl, dl_shuffle = shuffle dl,
                 dl_collate = DefaultCollate\<rparr>, out))"
  by (simp add: get_dataloader_def Let_def split: sum.splits)

lemma get_dataloader_captioned:
  "image_split \<noteq> ''test2017'' \<Longrightarrow>
   get_dataloader env dl image_split caption_split out =
     (case Dataloader_transform dl image_split of
        Inl e \<Rightarrow> (Inl e, out)
      | Inr t \<Rightarrow>
          (case Data_init env (root_dir dl) image_split caption_split (Some t) out of
             (Inl e, out1) \<Rightarrow> (Inl e, out1)
           | (Inr d, out1) \<Rightarrow>
               (Inr \<lparr>dl_dataset =
                        (if subset_n dl \<noteq> 0
                         then Subset (DataDS d) (py_range (subset_n dl)) else DataDS d),
                      dl_batch_size = batch_size dl, dl_shuffle = shuffle dl,
                      dl_collate = CustomCollate\<rparr>, out1)))"
  by (simp add: get_dataloader_def Let_def split: sum.splits prod.splits)

lemma Dataloader_transform_subset_irrelevant:
  "Dataloader_transform (dl\<lparr>subset_n := k\<rparr>) image_split = Dataloader_transform dl image_split"
  by (simp add: Dataloader_transform_def split: option.splits)

lemma get_dataloader_subset_structure:
  assumes "subset_n dl \<noteq> 0"
      and "get_dataloader env dl image_split caption_split out = (Inr loader, out1)"
  shows "\<exists>prov. get_dataloader env (dl\<lparr>subset_n := 0\<rparr>) image_split caption_split out =
                  (Inr (loader\<lparr>dl_dataset := prov\<rparr>), out1) \<and>
                dl_dataset loader = Subset prov (py_range (subset_n dl))"
proof (cases "image_split = ''test2017''")
  case True
  from assms show ?thesis
    unfolding True get_dataloader_test Dataloader_transform_subset_irrelevant
    by (auto split: sum.splits)
next
  case False
  from assms show ?thesis
    unfolding get_dataloader_captioned [OF False] Dataloader_transform_subset_irrelevant
    by (auto split: sum.splits prod.splits)
qed

lemma ex_get_dataloader_train:
  "get_dataloader (ex_env (Some (JsonArray [ex_anno 123 [''a dog'']]))) (ex_dl sub)
      ''train2017'' (Some ''captions'') [] =
     (Inr \<lparr>dl_dataset =
              (if subset_n (ex_dl sub) \<noteq> 0
               then Subset (DataDS ((ex_data (JsonArray [ex_anno 123 [''a dog'']]))
                                       \<lparr>transform := Some (ex_pipeline (1 / 2))\<rparr>))
                      (py_range (subset_n (ex_dl sub)))
               else DataDS ((ex_data (JsonArray [ex_anno 123 [''a dog'']]))
                               \<lparr>transform := Some (ex_pipeline (1 / 2))\<rparr>)),
            dl_batch_size = 4, dl_shuffle = False, dl_collate = CustomCollate\<rparr>, [])"
proof -
  have t: "Dataloader_transform (ex_dl sub) ''train2017'' = Inr (ex_pipeline (1 / 2))"
    by (simp add: Dataloader_transform_def ex_dl_def Dataloader_init_def ex_pipeline_def)
  have i: "Data_init (ex_env (Some (JsonArray [ex_anno 123 [''a dog'']]))) (root_dir (ex_dl sub))
             ''train2017'' (Some ''captions'') (Some (ex_pipeline (1 / 2))) [] =
           (Inr ((ex_data (JsonArray [ex_anno 123 [''a dog'']]))
                    \<lparr>transform := Some (ex_pipeline (1 / 2))\<rparr>), [])"
    by (simp add: Data_init_def ex_env_def ex_data_def ex_dl_def Dataloader_init_def)
  have b: "batch_size (ex_dl sub) = 4" "shuffle (ex_dl sub) = False"
    by (simp_all add: ex_dl_def Dataloader_init_def)
  have ne: "''train2017'' \<noteq> ''test2017''" by simp
  show ?thesis
    by (simp add: get_dataloader_captioned [OF ne] t i b)
qed

lemma ex_getitem_full:
  "fst (dataset_getitem (ex_env (Some (JsonArray [ex_anno 123 [''a dog'']]))) r
          (DataDS ((ex_data (JsonArray [ex_anno 123 [''a dog'']]))
                      \<lparr>transform := Some (ex_pipeline (1 / 2))\<rparr>)) 0 []) =
     Inr (Captioned 14 [101, 97, 32, 100, 111, 103, 102])"
proof -
  let ?E = "ex_env (Some (JsonArray [ex_anno 123 [''a dog'']]))"
  let ?D = "(ex_data (JsonArray [ex_anno 123 [''a dog'']]))\<lparr>transform := Some (ex_pipeline (1 / 2))\<rparr>"
  have pi: "py_index (image_paths (self \<lparr>self = ?D, trace = []\<rparr>)) 0 = Inr ex_path"
    by (simp add: ex_data_def py_index_def)
  have im: "imread ?E ex_path = Some 7" by (simp add: ex_env_def)
  have iid: "image_id_of ex_path = Inr ''123''"
    using image_id_of_int [OF ex_stem] by (simp add: py_str_123)
  have mc: "match_captions (captions (self \<lparr>self = ?D, trace = []\<rparr>)) ''123'' = [[''a dog'']]"
    using match_captions_int [of "JsonArray [ex_anno 123 [''a dog'']]" 123]
    by (simp add: py_str_123 ex_data_def ex_anno_def)
  have ne: "match_captions (captions (self \<lparr>self = ?D, trace = []\<rparr>)) ''123'' \<noteq> []"
    unfolding mc by simp
  have rc: "resolve_captions (match_captions (captions (self \<lparr>self = ?D, trace = []\<rparr>)) ''123'') =
              [''a dog'']"
    unfolding mc by (simp add: resolve_captions_def)
  have l: "[''a dog''] \<noteq> []" by simp
  from Data_getitem_with_captions [OF pi im iid ne rc l, of r]
  show ?thesis
    by (simp add: strip_a_dog ex_data_def ex_env_def ex_tokenize_def ex_pipeline_def)
qed


text \<open>
  C7. When the subset size is \<open>N \<ge> 1\<close> and \<open>get_dataloader\<close> returns, the dataset it
  wraps is \<open>Subset(provider, range(N))\<close>, where the provider is the dataset that the same
  call wraps when no subset is asked for. Its length is exactly \<open>N\<close>, and for every index
  \<open>0 \<le> i < N\<close>, every random draw and every earlier trace, asking the subset for \<open>i\<close>
  gives the outcome and the trace that asking the provider for \<open>i\<close> gives: the subset is
  the prefix of the provider in its own order.
\<close>

theorem subset_is_prefix:
  assumes "1 \<le> N"
      and "subset_n dl = N"
      and "get_dataloader env dl image_split caption_split out = (Inr loader, out1)"
  shows "\<exists>prov. get_dataloader env (dl\<lparr>subset_n := 0\<rparr>) image_split caption_split out =
                  (Inr (loader\<lparr>dl_dataset := prov\<rparr>), out1) \<and>
                dl_dataset loader = Subset prov (py_range N) \<and>
                int (dataset_len (dl_dataset loader)) = N \<and>
                (\<forall>i r tr. 0 \<le> i \<and> i < N \<longrightarrow>
                   fst (dataset_getitem env r (dl_dataset loader) i tr) =
                     fst (dataset_getitem env r prov i tr) \<and>
                   snd (snd (dataset_getitem env r (dl_dataset loader) i tr)) =
                     snd (snd (dataset_getitem env r prov i tr)))"
proof -
  have nz: "subset_n dl \<noteq> 0" using assms(1) assms(2) by simp
  from get_dataloader_subset_structure [OF nz assms(3)] obtain prov where
    full: "get_dataloader env (dl\<lparr>subset_n := 0\<rparr>) image_split caption_split out =
             (Inr (loader\<lparr>dl_dataset := prov\<rparr>), out1)"
    and sub: "dl_dataset loader = Subset prov (py_range N)"
    unfolding assms(2) by blast
  have len: "int (dataset_len (dl_dataset loader)) = N"
    using assms(1) by (simp add: sub length_py_range)
  have same: "fst (dataset_getitem env r (dl_dataset loader) i tr) =
                fst (dataset_getitem env r prov i tr) \<and>
              snd (snd (dataset_getitem env r (dl_dataset loader) i tr)) =
                snd (snd (dataset_getitem env r prov i tr))"
    if "0 \<le> i \<and> i < N" for i r tr
    using that unfolding sub
    by (simp add: py_index_py_range split: prod.splits)
  from full sub len same show ?thesis by blast
qed

theorem subset_is_prefix_witness:
  "int (dataset_len (Subset (DataDS ((ex_data (JsonArray [ex_anno 123 [''a dog'']]))
                                        \<lparr>transform := Some (ex_pipeline (1 / 2))\<rparr>))
                       (py_range 1))) = 1 \<and>
   fst (dataset_getitem (ex_env (Some (JsonArray [ex_anno 123 [''a dog'']]))) 0
          (Subset (DataDS ((ex_data (JsonArray [ex_anno 123 [''a dog'']]))
                              \<lparr>transform := Some (ex_pipeline (1 / 2))\<rparr>))
             (py_range 1)) 0 []) =
     Inr (Captioned 14 [101, 97, 32, 100, 111, 103, 102])"
proof -
  let ?E = "ex_env (Some (JsonArray [ex_anno 123 [''a dog'']]))"
  let ?D = "(ex_data (JsonArray [ex_anno 123 [''a dog'']]))\<lparr>transform := Some (ex_pipeline (1 / 2))\<rparr>"
  let ?L = "\<lparr>dl_dataset = Subset (DataDS ?D) (py_range 1),
             dl_batch_size = 4, dl_shuffle = False, dl_collate = CustomCollate\<rparr>"
  have n: "(1::int) \<le> 1" by simp
  have s: "subset_n (ex_dl (Some 1)) = 1" by (simp add: ex_dl_def Dataloader_init_def)
  have ev: "get_dataloader ?E (ex_dl (Some 1)) ''train2017'' (Some ''captions'') [] = (Inr ?L, [])"
    using ex_get_dataloader_train [of "Some 1"] by (simp add: s)
  from subset_is_prefix [OF n s ev] obtain prov where
    a: "dl_dataset ?L = Subset prov (py_range 1)"
    and b: "int (dataset_len (dl_dataset ?L)) = 1"
    and c: "\<forall>i r tr. 0 \<le> i \<and> i < 1 \<longrightarrow>
              fst (dataset_getitem ?E r (dl_dataset ?L) i tr) = fst (dataset_getitem ?E r prov i tr) \<and>
              snd (snd (dataset_getitem ?E r (dl_dataset ?L) i tr)) =
                snd (snd (dataset_getitem ?E r prov i tr))"
    by blast
  from a have p: "prov = DataDS ?D" by simp
  from c have "fst (dataset_getitem ?E 0 (dl_dataset ?L) 0 []) = fst (dataset_getitem ?E 0 prov 0 [])"
    by simp
  then have "fst (dataset_getitem ?E 0 (Subset (DataDS ?D) (py_range 1)) 0 []) =
               Inr (Captioned 14 [101, 97, 32, 100, 111, 103, 102])"
    unfolding p using ex_getitem_full [of 0] by simp
  with b show ?thesis by simp
qed


text \<open>
  C10. The constructor's default subset size is 0. When the subset size is 0 and
  \<open>get_dataloader\<close> returns, the wrapped dataset is no \<open>Subset\<close>: it is the provider
  itself (\<open>Data_test\<close> for the test split, \<open>Data\<close> otherwise), and its length is the number
  of images discovered under the split directory.
\<close>

theorem no_subset_by_default:
  assumes "subset_n dl = 0"
      and "get_dataloader env dl image_split caption_split out = (Inr loader, out1)"
  shows "subset_n (Dataloader_init bs sz sh None) = 0 \<and>
         (\<forall>ds idxs. dl_dataset loader \<noteq> Subset ds idxs) \<and>
         dataset_len (dl_dataset loader) =
           length (glob env (root_dir dl @ ''/'' @ image_split @ ''/*.jpg'')) \<and>
         (if image_split = ''test2017''
          then \<exists>t. Dataloader_transform dl image_split = Inr t \<and>
                   dl_dataset loader =
                     DataTestDS (Data_test_init env (root_dir dl) image_split (Some t))
          else \<exists>t d. Dataloader_transform dl image_split = Inr t \<and>
                     Data_init env (root_dir dl) image_split caption_split (Some t) out =
                       (Inr d, out1) \<and>
                     dl_dataset loader = DataDS d)"
proof (cases "image_split = ''test2017''")
  case True
  from assms(2) obtain t where
    t: "Dataloader_transform dl ''test2017'' = Inr t"
    and ds: "dl_dataset loader = DataTestDS (Data_test_init env (root_dir dl) ''test2017'' (Some t))"
    unfolding True get_dataloader_test using assms(1)
    by (auto split: sum.splits)
  have len: "dataset_len (dl_dataset loader) =
               length (glob env (root_dir dl @ ''/'' @ ''test2017'' @ ''/*.jpg''))"
    by (simp add: ds Data_test_len_def Data_test_init_def)
  from t ds len True show ?thesis
    by (simp add: Dataloader_init_def)
next
  case False
  from assms(2) obtain t d where
    t: "Dataloader_transform dl image_split = Inr t"
    and i: "Data_init env (root_dir dl) image_split caption_split (Some t) out = (Inr d, out1)"
    and ds: "dl_dataset loader = DataDS d"
    unfolding get_dataloader_captioned [OF False] using assms(1)
    by (auto split: sum.splits prod.splits)
  have len: "dataset_len (dl_dataset loader) =
               length (glob env (root_dir dl @ ''/'' @ image_split @ ''/*.jpg''))"
    using Data_init_paths [OF i] by (simp add: ds Data_len_def)
  from t i ds len False show ?thesis
    by (simp add: Dataloader_init_def)
qed

theorem no_subset_by_default_witness:
  "subset_n (ex_dl None) = 0 \<and>
   get_dataloader (ex_env (Some (JsonArray [ex_anno 123 [''a dog'']]))) (ex_dl None)
      ''train2017'' (Some ''captions'') [] =
     (Inr \<lparr>dl_dataset = DataDS ((ex_data (JsonArray [ex_anno 123 [''a dog'']]))
                                    \<lparr>transform := Some (ex_pipeline (1 / 2))\<rparr>),
            dl_batch_size = 4, dl_shuffle = False, dl_collate = CustomCollate\<rparr>, []) \<and>
   dataset_len (DataDS ((ex_data (JsonArray [ex_anno 123 [''a dog'']]))
                           \<lparr>transform := Some (ex_pipeline (1 / 2))\<rparr>)) =
     length (glob (ex_env (Some (JsonArray [ex_anno 123 [''a dog'']])))
               (''/data'' @ ''/'' @ ''train2017'' @ ''/*.jpg''))"
proof -
  let ?E = "ex_env (Some (JsonArray [ex_anno 123 [''a dog'']]))"
  let ?D = "(ex_data (JsonArray [ex_anno 123 [''a dog'']]))\<lparr>transform := Some (ex_pipeline (1 / 2))\<rparr>"
  let ?L = "\<lparr>dl_dataset = DataDS ?D,
             dl_batch_size = 4, dl_shuffle = False, dl_collate = CustomCollate\<rparr>"
  have s: "subset_n (ex_dl None) = 0" by (simp add: ex_dl_def Dataloader_init_def)
  have r: "root_dir (ex_dl None) = ''/data''" by (simp add: ex_dl_def)
  have ev: "get_dataloader ?E (ex_dl None) ''train2017'' (Some ''captions'') [] = (Inr ?L, [])"
    using ex_get_dataloader_train [of None] by (simp add: s)
  from no_subset_by_default [OF s ev]
  have "dataset_len (dl_dataset ?L) =
          length (glob ?E (root_dir (ex_dl None) @ ''/'' @ ''train2017'' @ ''/*.jpg''))"
    by blast
  with s ev show ?thesis unfolding r by simp
qed

end
